theory Spec2Isabelle
  imports Main "HOL-Library.AList"
begin

section \<open>Strings\<close>

text \<open>
  Strings are lists of characters with the codes 0 to 255. The white space of
  \<^verbatim>\<open>String.prototype.trim\<close> and of the regular expression class
  \<^verbatim>\<open>\s\<close> is, among these characters, tab, line feed, vertical tab, form
  feed, carriage return, space and the no-break space U+00A0.
\<close>

definition isSpace :: "char \<Rightarrow> bool" where
  "isSpace c =
     (c \<in> set [CHR 0x09, CHR 0x0A, CHR 0x0B, CHR 0x0C, CHR 0x0D, CHR '' '', CHR 0xA0])"

definition trim :: "string \<Rightarrow> string" where
  "trim s = rev (dropWhile isSpace (rev (dropWhile isSpace s)))"

definition startsWith :: "string \<Rightarrow> string \<Rightarrow> bool" where
  "startsWith s p = (take (length p) s = p)"

section \<open>Data model\<close>

text \<open>
  A \<^verbatim>\<open>Record<string, string>\<close> is an association list in insertion order;
  the assignment \<^verbatim>\<open>obj[k] = v\<close> is \<^const>\<open>AList.update\<close>, which
  overwrites the value of a key in place and appends a new key at the end.
\<close>

type_synonym PropertyMap = "(string \<times> string) list"

type_synonym VariableModes = "(string \<times> PropertyMap) list"

text \<open>
  An element of the page: \<open>elemId\<close> is its identity as a node (a JavaScript
  \<^verbatim>\<open>Map\<close> keys on identity), \<open>classList\<close> its classes in order and
  \<open>variableMode\<close> the value of its \<^verbatim>\<open>data-variable-mode\<close> attribute,
  \<open>None\<close> when the attribute is absent.
\<close>

record HTMLElement =
  elemId :: nat
  classList :: "string list"
  variableMode :: "string option"

text \<open>
  A \<^verbatim>\<open>CSSStyleDeclaration\<close> is the list of its declarations, name and
  value; \<^verbatim>\<open>style[j]\<close> is the name of the \<open>j\<close>-th one and
  \<^verbatim>\<open>getPropertyValue\<close> looks a name up, giving the empty string for a
  name that is not declared.
\<close>

type_synonym CSSStyleDeclaration = "(string \<times> string) list"

definition getPropertyValue :: "CSSStyleDeclaration \<Rightarrow> string \<Rightarrow> string" where
  "getPropertyValue st propertyName =
     (case map_of st propertyName of None \<Rightarrow> [] | Some v \<Rightarrow> v)"

datatype CSSRule = CSSStyleRule string CSSStyleDeclaration | OtherRule

text \<open>
  A style sheet of the document. Reading \<^verbatim>\<open>cssRules\<close> of a cross-origin
  sheet throws a security error: \<open>cssRules\<close> is \<open>None\<close> then.
\<close>

record CSSStyleSheet =
  href :: "string option"
  cssRules :: "CSSRule list option"

text \<open>
  The publish date of the site, as the collaborator \<^verbatim>\<open>getWfPublishDate\<close>
  returns it: a \<^verbatim>\<open>Date\<close>, here with the text that
  \<^verbatim>\<open>toISOString\<close> gives for it, or an invalid \<^verbatim>\<open>Date\<close>, on
  which \<^verbatim>\<open>toISOString\<close> throws a \<^verbatim>\<open>RangeError\<close>.
\<close>

datatype WfDate = ValidDate string | InvalidDate

datatype error = RangeError

definition toISOString :: "WfDate \<Rightarrow> error + string" where
  "toISOString d = (case d of ValidDate s \<Rightarrow> Inr s | InvalidDate \<Rightarrow> Inl RangeError)"

record Document =
  elements :: "HTMLElement list"
  styleSheets :: "CSSStyleSheet list"
  wfPublishDate :: "WfDate option"

text \<open>
  A value where the code expects the VariableModes, as the \<^verbatim>\<open>data\<close> of
  the readiness object or of a cache entry: \<open>Null\<close> is
  \<^verbatim>\<open>null\<close>, and also a \<^verbatim>\<open>data\<close> property that is not there;
  \<open>Modes\<close> is an object of the declared type; \<open>Other\<close> is any other value
  that a cache entry can hold, of which the code uses nothing but whether it
  is truthy.
\<close>

datatype DataValue = Null | Other bool | Modes VariableModes

definition truthy :: "DataValue \<Rightarrow> bool" where
  "truthy v = (case v of Null \<Rightarrow> False | Other b \<Rightarrow> b | Modes _ \<Rightarrow> True)"

text \<open>
  The entry of \<^verbatim>\<open>localStorage\<close> under \<^verbatim>\<open>CACHE_KEY\<close>, as
  \<^verbatim>\<open>JSON.parse\<close> reads it: an object with a \<^verbatim>\<open>publishDate\<close>
  that is a string and with whatever \<^verbatim>\<open>data\<close> it has, which the code
  reads without a test; or \<open>Unparseable\<close>, for an empty text, a text that
  \<^verbatim>\<open>JSON.parse\<close> rejects and a value without such a
  \<^verbatim>\<open>publishDate\<close>, which all end in a miss. Reading and writing the
  storage are taken to succeed.
\<close>

datatype CacheBlob = Unparseable | CachedVariableModes string DataValue

section \<open>The synchronous collector\<close>

subsection \<open>extractCssCustomProperties\<close>

text \<open>The loop over the declarations of a matching rule (the index \<open>j\<close>).\<close>

definition customPropertiesStep :: "CSSStyleDeclaration \<Rightarrow> string \<Rightarrow> PropertyMap \<Rightarrow> PropertyMap" where
  "customPropertiesStep st propertyName elementRules =
     (if startsWith propertyName ''--''
      then (let propertyValue = trim (getPropertyValue st propertyName)
            in if propertyValue \<noteq> [] then AList.update propertyName propertyValue elementRules
               else elementRules)
      else elementRules)"

definition customProperties :: "CSSStyleDeclaration \<Rightarrow> PropertyMap" where
  "customProperties st = fold (customPropertiesStep st) (map fst st) []"

text \<open>
  The loop over the rules of the sheet (the index \<open>i\<close>): it stops at the first
  style rule whose selector text is the class, and gives its custom properties.
\<close>

fun findClassRule :: "CSSRule list \<Rightarrow> string \<Rightarrow> PropertyMap option" where
  "findClassRule [] className = None"
| "findClassRule (CSSStyleRule sel st # rest) className =
     (if sel = CHR ''.'' # className then Some (customProperties st)
      else findClassRule rest className)"
| "findClassRule (OtherRule # rest) className = findClassRule rest className"

text \<open>
  The body of the loop over the elements, on the pair of \<^verbatim>\<open>result\<close> and
  \<^verbatim>\<open>classRulesMap\<close>.
\<close>

type_synonym ElementMap = "HTMLElement \<rightharpoonup> PropertyMap"

type_synonym ClassRulesMap = "string \<rightharpoonup> PropertyMap"

definition processElement ::
  "CSSRule list \<Rightarrow> HTMLElement \<Rightarrow> ElementMap \<times> ClassRulesMap \<Rightarrow> ElementMap \<times> ClassRulesMap" where
  "processElement rules element st =
     (let result = (fst st)(element \<mapsto> []); classRulesMap = snd st
      in case classList element of
           [] \<Rightarrow> (result, classRulesMap)
         | className # _ \<Rightarrow>
             (case classRulesMap className of
                Some cached \<Rightarrow> (result(element \<mapsto> cached), classRulesMap)
              | None \<Rightarrow>
                  (case findClassRule rules className of
                     None \<Rightarrow> (result, classRulesMap)
                   | Some elementRules \<Rightarrow>
                       (result(element \<mapsto> elementRules),
                        classRulesMap(className \<mapsto> elementRules)))))"

definition processElements ::
  "CSSRule list \<Rightarrow> HTMLElement list \<Rightarrow> ElementMap \<times> ClassRulesMap" where
  "processElements rules els = fold (processElement rules) els (Map.empty, Map.empty)"

definition extractCssCustomProperties :: "CSSStyleSheet list \<Rightarrow> HTMLElement list \<Rightarrow> ElementMap" where
  "extractCssCustomProperties sheets els =
     (case sheets of
        [] \<Rightarrow> Map.empty
      | firstStylesheet # _ \<Rightarrow>
          (case cssRules firstStylesheet of
             None \<Rightarrow> Map.empty
           | Some rules \<Rightarrow> fst (processElements rules els)))"

subsection \<open>extractWebflowVariableModes\<close>

definition publishDateStringOf :: "WfDate option \<Rightarrow> error + string" where
  "publishDateStringOf currentPublishDate =
     (case currentPublishDate of None \<Rightarrow> Inr [] | Some d \<Rightarrow> toISOString d)"

text \<open>The first \<^verbatim>\<open>try\<close> block: a failure to parse is caught and is a miss.\<close>

definition cacheLoad :: "CacheBlob option \<Rightarrow> WfDate option \<Rightarrow> string \<Rightarrow> DataValue option" where
  "cacheLoad cachedData currentPublishDate publishDateString =
     (case cachedData of
        None \<Rightarrow> None
      | Some blob \<Rightarrow>
          (if currentPublishDate = None then None
           else (case blob of
                   Unparseable \<Rightarrow> None
                 | CachedVariableModes publishDate cached \<Rightarrow>
                     (if publishDate = publishDateString then Some cached else None))))"

definition querySelectorAll :: "Document \<Rightarrow> HTMLElement list" where
  "querySelectorAll doc = filter (\<lambda>e. variableMode e \<noteq> None) (elements doc)"

text \<open>The loop that names each element's properties by its mode.\<close>

definition collectStep :: "ElementMap \<Rightarrow> HTMLElement \<Rightarrow> VariableModes \<Rightarrow> VariableModes" where
  "collectStep result variableModeElement variableModes =
     (case variableMode variableModeElement of
        None \<Rightarrow> variableModes
      | Some modeName \<Rightarrow>
          (if modeName = [] then variableModes
           else (case result variableModeElement of
                   None \<Rightarrow> variableModes
                 | Some variables \<Rightarrow> AList.update modeName variables variableModes)))"

definition collectModes :: "ElementMap \<Rightarrow> HTMLElement list \<Rightarrow> VariableModes" where
  "collectModes result els = fold (collectStep result) els []"

text \<open>The last \<^verbatim>\<open>try\<close> block: nothing is written without a publish date.\<close>

definition cacheStore :: "WfDate option \<Rightarrow> string \<Rightarrow> VariableModes \<Rightarrow> CacheBlob option \<Rightarrow> CacheBlob option" where
  "cacheStore currentPublishDate publishDateString variableModes storage =
     (if currentPublishDate = None then storage
      else Some (CachedVariableModes publishDateString (Modes variableModes)))"

definition freshVariableModes :: "Document \<Rightarrow> VariableModes" where
  "freshVariableModes doc =
     (let variableModeElements = querySelectorAll doc;
          result = extractCssCustomProperties (styleSheets doc) variableModeElements
      in collectModes result variableModeElements)"

definition extractWebflowVariableModes ::
  "Document \<Rightarrow> CacheBlob option \<Rightarrow> error + (DataValue \<times> CacheBlob option)" where
  "extractWebflowVariableModes doc storage =
     (let currentPublishDate = wfPublishDate doc
      in case publishDateStringOf currentPublishDate of
           Inl e \<Rightarrow> Inl e
         | Inr publishDateString \<Rightarrow>
             (case cacheLoad storage currentPublishDate publishDateString of
                Some cached \<Rightarrow> Inr (cached, storage)
              | None \<Rightarrow>
                  (let variableModes = freshVariableModes doc
                   in Inr (Modes variableModes,
                           cacheStore currentPublishDate publishDateString variableModes storage))))"

subsection \<open>The readiness object and initWfVarModes\<close>

text \<open>
  The state of the page that the collector reads and writes: the cache entry in
  \<^verbatim>\<open>localStorage\<close>, the fields of \<^verbatim>\<open>window.wfVarModes\<close>, the
  listeners of \<^verbatim>\<open>wfVarModesReady\<close> that \<^verbatim>\<open>onReady\<close> added and
  the callbacks it handed to \<^verbatim>\<open>setTimeout\<close>, oldest first. A callback is
  named by a number. Two fields record what happened: \<open>calls\<close> has one entry for
  each invocation of a callback, with the argument it received, and
  \<open>dispatched\<close> has one entry for each dispatch of the event, with \<open>data\<close>
  and \<open>isReady\<close> as they were at that moment.
\<close>

record World =
  localStorage :: "CacheBlob option"
  data :: DataValue
  isReady :: bool
  listeners :: "nat list"
  timers :: "nat list"
  calls :: "(nat \<times> DataValue) list"
  dispatched :: "(DataValue \<times> bool) list"

definition initialWorld :: "CacheBlob option \<Rightarrow> World" where
  "initialWorld storage =
     \<lparr>localStorage = storage, data = Null, isReady = False, listeners = [], timers = [],
      calls = [], dispatched = []\<rparr>"

definition onReady :: "nat \<Rightarrow> World \<Rightarrow> World" where
  "onReady callback w =
     (if isReady w \<and> truthy (data w) then w\<lparr>timers := timers w @ [callback]\<rparr>
      else w\<lparr>listeners := listeners w @ [callback]\<rparr>)"

text \<open>Each listener is called at once, in the order of registration, with \<open>data\<close>.\<close>

definition dispatchEvent :: "World \<Rightarrow> World" where
  "dispatchEvent w =
     w\<lparr>dispatched := dispatched w @ [(data w, isReady w)],
       calls := calls w @ map (\<lambda>callback. (callback, data w)) (listeners w)\<rparr>"

text \<open>The event loop runs the oldest pending timer; its callback reads \<open>data\<close> then.\<close>

definition runTimer :: "World \<Rightarrow> World" where
  "runTimer w =
     (case timers w of
        [] \<Rightarrow> w
      | callback # rest \<Rightarrow> w\<lparr>timers := rest, calls := calls w @ [(callback, data w)]\<rparr>)"

text \<open>
  The end of \<^verbatim>\<open>initWfVarModes\<close>, the same in each collector: \<open>data\<close>
  is set, then \<open>isReady\<close>, then the event is dispatched.
\<close>

definition publish :: "DataValue \<Rightarrow> World \<Rightarrow> World" where
  "publish variableModes w =
     dispatchEvent ((w\<lparr>data := variableModes\<rparr>)\<lparr>isReady := True\<rparr>)"

definition initWfVarModes :: "Document \<Rightarrow> World \<Rightarrow> error + World" where
  "initWfVarModes doc w =
     (case extractWebflowVariableModes doc (localStorage w) of
        Inl e \<Rightarrow> Inl e
      | Inr (variableModes, storage) \<Rightarrow> Inr (publish variableModes (w\<lparr>localStorage := storage\<rparr>)))"

section \<open>The collectors that read the style sheet as text\<close>

subsection \<open>The two regular expressions\<close>

text \<open>
  \<^verbatim>\<open>/\.([^\s{,:]+)\s*{([^}]*)}/\<close> at the head of a text. Each repetition is
  greedy and is followed by a character outside its class, so no shorter
  repetition matches: the class name is the longest run after the dot, the
  white space is skipped, and the block runs to the first closing brace. The
  result is the two groups and the text after the match.
\<close>

definition isClassChar :: "char \<Rightarrow> bool" where
  "isClassChar c = (\<not> isSpace c \<and> c \<notin> set ''{,:'')"

definition matchClassRule :: "string \<Rightarrow> (string \<times> string \<times> string) option" where
  "matchClassRule s =
     (case s of
        [] \<Rightarrow> None
      | c # s1 \<Rightarrow>
          (if c \<noteq> CHR ''.'' \<or> takeWhile isClassChar s1 = [] then None
           else (case dropWhile isSpace (dropWhile isClassChar s1) of
                   [] \<Rightarrow> None
                 | b # s2 \<Rightarrow>
                     (if b \<noteq> CHR ''{'' then None
                      else (case dropWhile (\<lambda>x. x \<noteq> CHR ''}'') s2 of
                              [] \<Rightarrow> None
                            | _ # s3 \<Rightarrow>
                                Some (takeWhile isClassChar s1,
                                      takeWhile (\<lambda>x. x \<noteq> CHR ''}'') s2, s3))))))"

text \<open>
  \<^verbatim>\<open>/(--[^:]+):\s*([^;]+);/\<close> at the head of a text. The name is the longest
  run without a colon after the two dashes, and the value runs to the first
  semicolon. The second group starts after the white space that follows the
  colon; when there is nothing but white space before the semicolon, the
  expression gives one white space character back and the group is that
  character.
\<close>

definition valueGroup :: "string \<Rightarrow> string" where
  "valueGroup v = (if dropWhile isSpace v = [] then [last v] else dropWhile isSpace v)"

definition matchVariable :: "string \<Rightarrow> (string \<times> string \<times> string) option" where
  "matchVariable s =
     (if \<not> startsWith s ''--'' \<or> takeWhile (\<lambda>x. x \<noteq> CHR '':'') (drop 2 s) = [] then None
      else (case dropWhile (\<lambda>x. x \<noteq> CHR '':'') (drop 2 s) of
              [] \<Rightarrow> None
            | _ # s1 \<Rightarrow>
                (if takeWhile (\<lambda>x. x \<noteq> CHR '';'') s1 = [] then None
                 else (case dropWhile (\<lambda>x. x \<noteq> CHR '';'') s1 of
                         [] \<Rightarrow> None
                       | _ # s2 \<Rightarrow>
                           Some (''--'' @ takeWhile (\<lambda>x. x \<noteq> CHR '':'') (drop 2 s),
                                 valueGroup (takeWhile (\<lambda>x. x \<noteq> CHR '';'') s1), s2)))))"

lemma matchClassRule_shorter:
  "matchClassRule s = Some (className, styleBlock, rest) \<Longrightarrow> length rest < length s"
proof -
  have drop_le: "\<And>P (xs :: string). length (dropWhile P xs) \<le> length xs"
    by (simp add: length_dropWhile_le)
  have tail: "\<And>P (xs :: string) y ys. dropWhile P xs = y # ys \<Longrightarrow> length ys < length xs"
  proof -
    fix P and xs :: string and y ys
    assume "dropWhile P xs = y # ys"
    then have "Suc (length ys) = length (dropWhile P xs)" by simp
    also have "\<dots> \<le> length xs" by (rule drop_le)
    finally show "length ys < length xs" by simp
  qed
  assume m: "matchClassRule s = Some (className, styleBlock, rest)"
  then obtain c s1 where s: "s = c # s1"
    by (cases s) (auto simp: matchClassRule_def)
  from m s obtain b s2 where b: "dropWhile isSpace (dropWhile isClassChar s1) = b # s2"
    by (auto simp: matchClassRule_def split: if_splits list.splits)
  from m s b obtain x where r: "dropWhile (\<lambda>x. x \<noteq> CHR ''}'') s2 = x # rest"
    by (auto simp: matchClassRule_def split: if_splits list.splits)
  from r have "length rest < length s2" by (rule tail)
  moreover from b have "length s2 < length (dropWhile isClassChar s1)" by (rule tail)
  moreover have "length (dropWhile isClassChar s1) \<le> length s1" by (rule drop_le)
  ultimately show ?thesis using s by simp
qed

lemma matchVariable_shorter:
  "matchVariable s = Some (g1, g2, rest) \<Longrightarrow> length rest < length s"
proof -
  have drop_le: "\<And>P (xs :: string). length (dropWhile P xs) \<le> length xs"
    by (simp add: length_dropWhile_le)
  have tail: "\<And>P (xs :: string) y ys. dropWhile P xs = y # ys \<Longrightarrow> length ys < length xs"
  proof -
    fix P and xs :: string and y ys
    assume "dropWhile P xs = y # ys"
    then have "Suc (length ys) = length (dropWhile P xs)" by simp
    also have "\<dots> \<le> length xs" by (rule drop_le)
    finally show "length ys < length xs" by simp
  qed
  assume m: "matchVariable s = Some (g1, g2, rest)"
  then obtain y s1 where a: "dropWhile (\<lambda>x. x \<noteq> CHR '':'') (drop 2 s) = y # s1"
    by (auto simp: matchVariable_def split: if_splits list.splits)
  from m a obtain z where r: "dropWhile (\<lambda>x. x \<noteq> CHR '';'') s1 = z # rest"
    by (auto simp: matchVariable_def split: if_splits list.splits)
  from r have "length rest < length s1" by (rule tail)
  moreover from a have "length s1 < length (drop 2 s)" by (rule tail)
  ultimately show ?thesis by simp
qed

text \<open>
  The loop \<^verbatim>\<open>while ((varMatch = variableRegex.exec(styleBlock)) !== null)\<close>:
  the expression is tried at each position from the left, and the search goes
  on after a match.
\<close>

function scanVariables :: "string \<Rightarrow> PropertyMap \<Rightarrow> PropertyMap" where
  "scanVariables [] customProps = customProps"
| "scanVariables (c # cs) customProps =
     (case matchVariable (c # cs) of
        None \<Rightarrow> scanVariables cs customProps
      | Some (g1, g2, rest) \<Rightarrow>
          scanVariables rest (AList.update (trim g1) (trim g2) customProps))"
  by pat_completeness auto
termination
  by (relation "measure (\<lambda>(s, _). length s)") (auto dest: matchVariable_shorter)

text \<open>
  The body of the loop over the matches of the class expression: a match with
  an empty block is skipped, and a class is stored only with at least one
  property.
\<close>

definition storeClass :: "string \<Rightarrow> string \<Rightarrow> ClassRulesMap \<Rightarrow> ClassRulesMap" where
  "storeClass className styleBlock classRulesMap =
     (if styleBlock = [] then classRulesMap
      else (let customProps = scanVariables styleBlock []
            in if customProps \<noteq> [] then classRulesMap(className \<mapsto> customProps)
               else classRulesMap))"

text \<open>
  The loop \<^verbatim>\<open>while ((match = classRegex.exec(cssText)) !== null)\<close>, with the
  same search as for the variables.
\<close>

function scanClassRules :: "string \<Rightarrow> ClassRulesMap \<Rightarrow> ClassRulesMap" where
  "scanClassRules [] classRulesMap = classRulesMap"
| "scanClassRules (c # cs) classRulesMap =
     (case matchClassRule (c # cs) of
        None \<Rightarrow> scanClassRules cs classRulesMap
      | Some (className, styleBlock, rest) \<Rightarrow>
          scanClassRules rest (storeClass className styleBlock classRulesMap))"
  by pat_completeness auto
termination
  by (relation "measure (\<lambda>(s, _). length s)") (auto dest: matchClassRule_shorter)

subsection \<open>The collector that fetches the style sheet\<close>

text \<open>
  What \<^verbatim>\<open>fetch\<close> gives for a URL: the request fails, the status is not a
  success, or the body of the response.
\<close>

datatype FetchResult = NetworkError | HttpError | Body string

definition processElement_fetch :: "ClassRulesMap \<Rightarrow> HTMLElement \<Rightarrow> ElementMap \<Rightarrow> ElementMap" where
  "processElement_fetch classRulesMap element result =
     (case classList element of
        [] \<Rightarrow> result(element \<mapsto> [])
      | className # _ \<Rightarrow>
          (case classRulesMap className of
             Some cached \<Rightarrow> result(element \<mapsto> cached)
           | None \<Rightarrow> result(element \<mapsto> [])))"

definition extractCssCustomProperties_fetch ::
  "(string \<Rightarrow> FetchResult) \<Rightarrow> CSSStyleSheet list \<Rightarrow> HTMLElement list \<Rightarrow> ElementMap" where
  "extractCssCustomProperties_fetch fetch sheets els =
     (case sheets of
        [] \<Rightarrow> Map.empty
      | firstStylesheet # _ \<Rightarrow>
          (case href firstStylesheet of
             None \<Rightarrow> Map.empty
           | Some stylesheetUrl \<Rightarrow>
               (if stylesheetUrl = [] then Map.empty
                else (case fetch stylesheetUrl of
                        Body cssText \<Rightarrow>
                          fold (processElement_fetch (scanClassRules cssText Map.empty)) els Map.empty
                      | _ \<Rightarrow> Map.empty))))"

definition freshVariableModes_fetch :: "(string \<Rightarrow> FetchResult) \<Rightarrow> Document \<Rightarrow> VariableModes" where
  "freshVariableModes_fetch fetch doc =
     (let variableModeElements = querySelectorAll doc;
          result = extractCssCustomProperties_fetch fetch (styleSheets doc) variableModeElements
      in collectModes result variableModeElements)"

definition extractWebflowVariableModes_fetch ::
  "(string \<Rightarrow> FetchResult) \<Rightarrow> Document \<Rightarrow> CacheBlob option \<Rightarrow>
   error + (DataValue \<times> CacheBlob option)" where
  "extractWebflowVariableModes_fetch fetch doc storage =
     (let currentPublishDate = wfPublishDate doc
      in case publishDateStringOf currentPublishDate of
           Inl e \<Rightarrow> Inl e
         | Inr publishDateString \<Rightarrow>
             (case cacheLoad storage currentPublishDate publishDateString of
                Some cached \<Rightarrow> Inr (cached, storage)
              | None \<Rightarrow>
                  (let variableModes = freshVariableModes_fetch fetch doc
                   in Inr (Modes variableModes,
                           cacheStore currentPublishDate publishDateString variableModes storage))))"

definition initWfVarModes_fetch :: "(string \<Rightarrow> FetchResult) \<Rightarrow> Document \<Rightarrow> World \<Rightarrow> error + World" where
  "initWfVarModes_fetch fetch doc w =
     (case extractWebflowVariableModes_fetch fetch doc (localStorage w) of
        Inl e \<Rightarrow> Inl e
      | Inr (variableModes, storage) \<Rightarrow> Inr (publish variableModes (w\<lparr>localStorage := storage\<rparr>)))"

subsection \<open>The collector that parses in a worker\<close>

text \<open>
  \<^verbatim>\<open>getMultipleHtmlElements\<close> gives \<^verbatim>\<open>null\<close>, not an empty array, when
  the selector matches nothing.
\<close>

definition getMultipleHtmlElements :: "Document \<Rightarrow> HTMLElement list option" where
  "getMultipleHtmlElements doc =
     (let targetElements = querySelectorAll doc
      in if length targetElements = 0 then None else Some targetElements)"

text \<open>
  The first loop sets the elements without a class and groups the others by
  their first class; the second loop runs only after the worker has answered
  without an error, and gives each grouped element the properties of its class.
\<close>

definition classlessStep :: "HTMLElement \<Rightarrow> ElementMap \<Rightarrow> ElementMap" where
  "classlessStep element result =
     (if classList element = [] then result(element \<mapsto> []) else result)"

definition groupedStep :: "ClassRulesMap \<Rightarrow> HTMLElement \<Rightarrow> ElementMap \<Rightarrow> ElementMap" where
  "groupedStep classRulesMap element result =
     (case classList element of
        [] \<Rightarrow> result
      | className # _ \<Rightarrow>
          result(element \<mapsto> (case classRulesMap className of None \<Rightarrow> [] | Some cssProps \<Rightarrow> cssProps)))"

definition extractCssCustomProperties_worker ::
  "(string \<Rightarrow> FetchResult) \<Rightarrow> CSSStyleSheet list \<Rightarrow> HTMLElement list \<Rightarrow> ElementMap" where
  "extractCssCustomProperties_worker fetch sheets els =
     (case sheets of
        [] \<Rightarrow> Map.empty
      | firstStylesheet # _ \<Rightarrow>
          (case href firstStylesheet of
             None \<Rightarrow> Map.empty
           | Some url \<Rightarrow>
               (if url = [] then Map.empty
                else (let result = fold classlessStep els Map.empty
                      in case fetch url of
                           Body cssText \<Rightarrow>
                             fold (groupedStep (scanClassRules cssText Map.empty)) els result
                         | _ \<Rightarrow> result))))"

definition extractWebflowVariableModes_worker ::
  "(string \<Rightarrow> FetchResult) \<Rightarrow> Document \<Rightarrow> CacheBlob option \<Rightarrow>
   error + (DataValue \<times> CacheBlob option)" where
  "extractWebflowVariableModes_worker fetch doc storage =
     (let currentPublishDate = wfPublishDate doc
      in case publishDateStringOf currentPublishDate of
           Inl e \<Rightarrow> Inl e
         | Inr publishDateString \<Rightarrow>
             (case cacheLoad storage currentPublishDate publishDateString of
                Some cached \<Rightarrow> Inr (cached, storage)
              | None \<Rightarrow>
                  (case getMultipleHtmlElements doc of
                     None \<Rightarrow> Inr (Null, storage)
                   | Some variableModeElements \<Rightarrow>
                       (let result = extractCssCustomProperties_worker fetch (styleSheets doc)
                                       variableModeElements;
                            variableModes = collectModes result variableModeElements
                        in Inr (Modes variableModes,
                                cacheStore currentPublishDate publishDateString variableModes
                                  storage)))))"

definition initWfVarModes_worker :: "(string \<Rightarrow> FetchResult) \<Rightarrow> Document \<Rightarrow> World \<Rightarrow> error + World" where
  "initWfVarModes_worker fetch doc w =
     (case extractWebflowVariableModes_worker fetch doc (localStorage w) of
        Inl e \<Rightarrow> Inl e
      | Inr (variableModes, storage) \<Rightarrow>
          (if \<not> truthy variableModes then Inr (w\<lparr>localStorage := storage\<rparr>)
           else Inr (publish variableModes (w\<lparr>localStorage := storage\<rparr>))))"

section \<open>The page as a run of events\<close>

text \<open>
  What can happen to the state of the page: a script calls
  \<^verbatim>\<open>wfVarModes.onReady\<close>, one of the collectors initializes, or the event
  loop runs a timer. An initialization that throws leaves the state as it was.
\<close>

datatype Event =
    OnReady nat
  | Tick
  | Init Document
  | InitFetch "string \<Rightarrow> FetchResult" Document
  | InitWorker "string \<Rightarrow> FetchResult" Document

definition orUnchanged :: "World \<Rightarrow> error + World \<Rightarrow> World" where
  "orUnchanged w r = (case r of Inl _ \<Rightarrow> w | Inr w' \<Rightarrow> w')"

fun step :: "Event \<Rightarrow> World \<Rightarrow> World" where
  "step (OnReady callback) w = onReady callback w"
| "step Tick w = runTimer w"
| "step (Init doc) w = orUnchanged w (initWfVarModes doc w)"
| "step (InitFetch fetch doc) w = orUnchanged w (initWfVarModes_fetch fetch doc w)"
| "step (InitWorker fetch doc) w = orUnchanged w (initWfVarModes_worker fetch doc w)"

definition run :: "Event list \<Rightarrow> World \<Rightarrow> World" where
  "run evs w = fold step evs w"


section \<open>Notions used in the statements\<close>

text \<open>
  The properties of the first class of an element in an index from class names
  to properties: empty for an element without a class and for a class that the
  index does not have.
\<close>

definition firstClassProps :: "ClassRulesMap \<Rightarrow> HTMLElement \<Rightarrow> PropertyMap" where
  "firstClassProps index element =
     (case classList element of
        [] \<Rightarrow> []
      | className # _ \<Rightarrow> (case index className of None \<Rightarrow> [] | Some props \<Rightarrow> props))"

text \<open>
  Every entry of \<^verbatim>\<open>classRulesMap\<close> is what the search through the rules
  gives for its class.
\<close>

definition cachedFrom :: "CSSRule list \<Rightarrow> ClassRulesMap \<Rightarrow> bool" where
  "cachedFrom rules classRulesMap =
     (\<forall>c p. classRulesMap c = Some p \<longrightarrow> findClassRule rules c = Some p)"

text \<open>
  The initializations among the events, and the callbacks that a run of events
  passes to \<^verbatim>\<open>onReady\<close>, in order.
\<close>

fun isInit :: "Event \<Rightarrow> bool" where
  "isInit (OnReady _) = False"
| "isInit Tick = False"
| "isInit _ = True"

fun registered :: "Event list \<Rightarrow> nat list" where
  "registered [] = []"
| "registered (OnReady callback # evs) = callback # registered evs"
| "registered (_ # evs) = registered evs"

definition noInit :: "Event list \<Rightarrow> bool" where
  "noInit evs = (\<forall>e \<in> set evs. \<not> isInit e)"

text \<open>
  \<open>isReady\<close> says that there is data, each dispatch of the event saw both
  set, each callback received data, and a timer is pending only once the data
  is there.
\<close>

definition consistent :: "World \<Rightarrow> bool" where
  "consistent w =
     ((isReady w \<longleftrightarrow> data w \<noteq> Null) \<and>
      (\<forall>snapshot \<in> set (dispatched w). snd snapshot \<and> fst snapshot \<noteq> Null) \<and>
      (\<forall>call \<in> set (calls w). snd call \<noteq> Null) \<and>
      (timers w = [] \<or> isReady w))"

text \<open>The cache entry, if there is one, has \<^verbatim>\<open>data\<close> that is not null.\<close>

definition cacheHasData :: "CacheBlob option \<Rightarrow> bool" where
  "cacheHasData storage =
     (case storage of
        Some (CachedVariableModes _ cached) \<Rightarrow> cached \<noteq> Null
      | _ \<Rightarrow> True)"

text \<open>
  The test \<^verbatim>\<open>!firstStylesheet || !firstStylesheet.href\<close> of the collectors
  that read the style sheet as text.
\<close>

definition noHref :: "CSSStyleSheet list \<Rightarrow> bool" where
  "noHref sheets =
     (case sheets of
        [] \<Rightarrow> True
      | firstStylesheet # _ \<Rightarrow>
          (case href firstStylesheet of None \<Rightarrow> True | Some url \<Rightarrow> url = []))"

section \<open>Style sheets written in a plain form\<close>















section \<open>Example pages\<close>

text \<open>
  One element of mode \<open>dark\<close> and class \<open>c1\<close>, and the rule
  \<^verbatim>\<open>.c1 { --bg: #000; color: red; }\<close>, the value with the white space
  around it.
\<close>

definition darkElement :: HTMLElement where
  "darkElement = \<lparr>elemId = 0, classList = [''c1''], variableMode = Some ''dark''\<rparr>"

definition darkSheet :: CSSStyleSheet where
  "darkSheet = \<lparr>href = None,
                 cssRules = Some [CSSStyleRule ''.c1'' [(''--bg'', '' #000 ''), (''color'', ''red'')]]\<rparr>"

definition darkPage :: Document where
  "darkPage = \<lparr>elements = [darkElement], styleSheets = [darkSheet], wfPublishDate = None\<rparr>"

text \<open>The same element on a page without a style sheet, and a page without elements.\<close>

definition barePage :: Document where
  "barePage = \<lparr>elements = [darkElement], styleSheets = [], wfPublishDate = None\<rparr>"

definition emptyPage :: Document where
  "emptyPage = \<lparr>elements = [], styleSheets = [], wfPublishDate = None\<rparr>"

definition januaryPage :: Document where
  "januaryPage = \<lparr>elements = [], styleSheets = [],
                   wfPublishDate = Some (ValidDate ''2024-01-01T00:00:00.000Z'')\<rparr>"



text \<open>A network on which every request fails, and one that serves one text.\<close>

definition noFetch :: "string \<Rightarrow> FetchResult" where
  "noFetch url = NetworkError"


section \<open>The loops over the elements\<close>

lemma processElement_fst:
  "cachedFrom rules crm \<Longrightarrow>
   fst (processElement rules el (res, crm)) = res(el \<mapsto> firstClassProps (findClassRule rules) el)"
  by (auto simp: processElement_def firstClassProps_def cachedFrom_def Let_def
           split: list.splits option.splits)

lemma processElement_cachedFrom:
  "cachedFrom rules crm \<Longrightarrow> cachedFrom rules (snd (processElement rules el (res, crm)))"
  by (auto simp: processElement_def cachedFrom_def Let_def split: list.splits option.splits)

lemma fold_processElement_fst:
  "cachedFrom rules crm \<Longrightarrow>
   fst (fold (processElement rules) els (res, crm)) =
     (\<lambda>e. if e \<in> set els then Some (firstClassProps (findClassRule rules) e) else res e)"
proof (induction els arbitrary: res crm)
  case Nil
  show ?case by simp
next
  case (Cons el els)
  obtain res' crm' where step: "processElement rules el (res, crm) = (res', crm')"
    by (cases "processElement rules el (res, crm)")
  from Cons.prems have res': "res' = res(el \<mapsto> firstClassProps (findClassRule rules) el)"
    using processElement_fst [of rules crm el res] step by simp
  from Cons.prems have "cachedFrom rules crm'"
    using processElement_cachedFrom [of rules crm el res] step by simp
  then have "fst (fold (processElement rules) els (res', crm')) =
     (\<lambda>e. if e \<in> set els then Some (firstClassProps (findClassRule rules) e) else res' e)"
    by (rule Cons.IH)
  then show ?case using step res' by (auto simp: fun_eq_iff)
qed

lemma processElement_keeps:
  "crm c = Some p \<Longrightarrow> snd (processElement rules el (res, crm)) c = Some p"
  by (auto simp: processElement_def Let_def split: list.splits option.splits)

lemma fold_processElement_keeps:
  "crm c = Some p \<Longrightarrow> snd (fold (processElement rules) els (res, crm)) c = Some p"
proof (induction els arbitrary: res crm)
  case Nil
  then show ?case by simp
next
  case (Cons el els)
  obtain res' crm' where step: "processElement rules el (res, crm) = (res', crm')"
    by (cases "processElement rules el (res, crm)")
  with Cons.prems have "crm' c = Some p"
    using processElement_keeps [of crm c p rules el res] by simp
  then have "snd (fold (processElement rules) els (res', crm')) c = Some p"
    by (rule Cons.IH)
  with step show ?case by simp
qed

lemma processElement_stores:
  "cachedFrom rules crm \<Longrightarrow> classList el = c # cs \<Longrightarrow> findClassRule rules c = Some p \<Longrightarrow>
   snd (processElement rules el (res, crm)) c = Some p"
  by (auto simp: processElement_def cachedFrom_def Let_def split: list.splits option.splits)

lemma fold_processElement_stores:
  "cachedFrom rules crm \<Longrightarrow> el \<in> set els \<Longrightarrow> classList el = c # cs \<Longrightarrow>
   findClassRule rules c = Some p \<Longrightarrow>
   snd (fold (processElement rules) els (res, crm)) c = Some p"
proof (induction els arbitrary: res crm)
  case Nil
  then show ?case by simp
next
  case (Cons x els)
  obtain res' crm' where step: "processElement rules x (res, crm) = (res', crm')"
    by (cases "processElement rules x (res, crm)")
  have inv': "cachedFrom rules crm'"
    using processElement_cachedFrom [OF Cons.prems(1), of x res] step by simp
  show ?case
  proof (cases "x = el")
    case True
    have "crm' c = Some p"
      using processElement_stores [OF Cons.prems(1), of el c cs p res] Cons.prems step True
      by simp
    then show ?thesis using step fold_processElement_keeps [of crm' c p rules els res'] by simp
  next
    case False
    with Cons.prems have "el \<in> set els" by simp
    then have "snd (fold (processElement rules) els (res', crm')) c = Some p"
      using Cons.IH [OF inv'] Cons.prems by simp
    with step show ?thesis by simp
  qed
qed

lemma fold_processElement_cachedFrom:
  "cachedFrom rules crm \<Longrightarrow> cachedFrom rules (snd (fold (processElement rules) els (res, crm)))"
proof (induction els arbitrary: res crm)
  case Nil
  then show ?case by simp
next
  case (Cons x els)
  obtain res' crm' where step: "processElement rules x (res, crm) = (res', crm')"
    by (cases "processElement rules x (res, crm)")
  have "cachedFrom rules crm'"
    using processElement_cachedFrom [OF Cons.prems, of x res] step by simp
  then have "cachedFrom rules (snd (fold (processElement rules) els (res', crm')))"
    by (rule Cons.IH)
  with step show ?case by simp
qed


section \<open>The readiness object over a run of events\<close>


lemma run_Cons: "run (e # evs) w = run evs (step e w)"
  by (simp add: run_def)


lemma run_before_ready:
  "noInit evs \<Longrightarrow> \<not> isReady w \<Longrightarrow> timers w = [] \<Longrightarrow>
   run evs w = w\<lparr>listeners := listeners w @ registered evs\<rparr>"
proof (induction evs arbitrary: w)
  case Nil
  show ?case by (simp add: run_def)
next
  case (Cons e evs)
  from Cons.prems have rest: "noInit evs" and e: "\<not> isInit e"
    by (simp_all add: noInit_def)
  show ?case
  proof (cases e)
    case (OnReady c)
    let ?w = "w\<lparr>listeners := listeners w @ [c]\<rparr>"
    have s: "step e w = ?w" using OnReady Cons.prems by (simp add: onReady_def)
    have "run evs ?w = ?w\<lparr>listeners := listeners ?w @ registered evs\<rparr>"
      using rest Cons.prems by (intro Cons.IH) simp_all
    then show ?thesis using s OnReady by (simp add: run_Cons)
  next
    case Tick
    have s: "step e w = w" using Tick Cons.prems by (simp add: runTimer_def)
    show ?thesis using s Tick Cons.IH [OF rest Cons.prems(2,3)] by (simp add: run_Cons)
  qed (use e in simp_all)
qed

lemma publish_fields:
  "isReady (publish d w) \<and> data (publish d w) = d \<and> timers (publish d w) = timers w \<and>
   calls (publish d w) = calls w @ map (\<lambda>c. (c, d)) (listeners w) \<and>
   dispatched (publish d w) = dispatched w @ [(d, True)] \<and>
   localStorage (publish d w) = localStorage w \<and> listeners (publish d w) = listeners w"
  by (simp add: publish_def dispatchEvent_def)




section \<open>The pipeline on a cache miss\<close>

lemma cachedFrom_empty: "cachedFrom rules Map.empty"
  by (simp add: cachedFrom_def)

lemma processElements_fst:
  "fst (processElements rules els) =
     (\<lambda>e. if e \<in> set els then Some (firstClassProps (findClassRule rules) e) else None)"
  unfolding processElements_def by (rule fold_processElement_fst) (rule cachedFrom_empty)

lemma findClassRule_append:
  "\<forall>st. CSSStyleRule (CHR ''.'' # c) st \<notin> set pre \<Longrightarrow>
   findClassRule (pre @ rest) c = findClassRule rest c"
proof (induction pre)
  case Nil
  show ?case by simp
next
  case (Cons r pre)
  then show ?case by (cases r) auto
qed

lemma extractWebflowVariableModes_miss:
  "publishDateStringOf (wfPublishDate doc) = Inr s \<Longrightarrow>
   cacheLoad storage (wfPublishDate doc) s = None \<Longrightarrow>
   extractWebflowVariableModes doc storage =
     Inr (Modes (freshVariableModes doc),
          cacheStore (wfPublishDate doc) s (freshVariableModes doc) storage)"
  by (simp add: extractWebflowVariableModes_def Let_def)

lemma initWfVarModes_miss:
  "publishDateStringOf (wfPublishDate doc) = Inr s \<Longrightarrow>
   cacheLoad (localStorage w) (wfPublishDate doc) s = None \<Longrightarrow>
   initWfVarModes doc w =
     Inr (publish (Modes (freshVariableModes doc))
           (w\<lparr>localStorage := cacheStore (wfPublishDate doc) s (freshVariableModes doc)
                                 (localStorage w)\<rparr>))"
  by (simp add: initWfVarModes_def extractWebflowVariableModes_miss)

lemma extractWebflowVariableModes_fetch_miss:
  "publishDateStringOf (wfPublishDate doc) = Inr s \<Longrightarrow>
   cacheLoad storage (wfPublishDate doc) s = None \<Longrightarrow>
   extractWebflowVariableModes_fetch fetch doc storage =
     Inr (Modes (freshVariableModes_fetch fetch doc),
          cacheStore (wfPublishDate doc) s (freshVariableModes_fetch fetch doc) storage)"
  by (simp add: extractWebflowVariableModes_fetch_def Let_def)

lemma collectModes_empty: "collectModes Map.empty els = []"
proof -
  have "fold (collectStep Map.empty) els acc = acc" for acc
    by (induction els) (simp_all add: collectStep_def split: option.splits)
  then show ?thesis by (simp add: collectModes_def)
qed

lemma extract_fetch_noHref:
  "noHref sheets \<Longrightarrow> extractCssCustomProperties_fetch fetch sheets els = Map.empty"
  by (auto simp: noHref_def extractCssCustomProperties_fetch_def split: list.splits option.splits)

lemma darkPage_fresh: "freshVariableModes darkPage = [(''dark'', [(''--bg'', ''#000'')])]"
  by (simp add: freshVariableModes_def darkPage_def darkElement_def darkSheet_def
      querySelectorAll_def extractCssCustomProperties_def processElements_def
      processElement_def collectModes_def collectStep_def customProperties_def
      customPropertiesStep_def startsWith_def trim_def isSpace_def getPropertyValue_def)


section \<open>The cache\<close>

text \<open>
  C7, as stated: storing under a version and loading under the same version
  gives the data back. It fails for the version of a page without a publish
  date, the empty string: nothing is stored and the load is a miss.
\<close>

theorem empty_version_round_trip_counterexample:
  "publishDateStringOf None = Inr [] \<and>
   cacheStore None [] [(''dark'', [(''--bg'', ''#000'')])] None = None \<and>
   cacheLoad (cacheStore None [] [(''dark'', [(''--bg'', ''#000'')])] None) None [] = None"
  by (simp add: publishDateStringOf_def cacheStore_def cacheLoad_def)

text \<open>
  C7, amended: for the version \<open>v\<close> of a publish date that is there and valid,
  storing \<open>d\<close> and loading under \<open>v\<close> gives \<open>d\<close>, and a later run of the
  pipeline on a page of that publish date returns \<open>d\<close> and leaves the entry;
  loading under any other version string is a miss; without a publish date
  nothing is stored and every load is a miss.
\<close>

theorem cache_round_trip:
  assumes "publishDateStringOf (Some date) = Inr v"
  shows "cacheLoad (cacheStore (Some date) v d storage) (Some date) v = Some (Modes d) \<and>
         (\<forall>doc. wfPublishDate doc = Some date \<longrightarrow>
            extractWebflowVariableModes doc (cacheStore (Some date) v d storage) =
              Inr (Modes d, cacheStore (Some date) v d storage)) \<and>
         (\<forall>date2 v2. v2 \<noteq> v \<longrightarrow>
            cacheLoad (cacheStore (Some date) v d storage) date2 v2 = None) \<and>
         cacheStore None [] d storage = storage \<and> cacheLoad storage None [] = None"
  using assms
  by (auto simp: cacheLoad_def cacheStore_def extractWebflowVariableModes_def Let_def
           split: option.splits)

theorem cache_round_trip_witness:
  "cacheLoad (cacheStore (Some (ValidDate ''2024-01-01T00:00:00.000Z'')) ''2024-01-01T00:00:00.000Z''
                [(''dark'', [(''--bg'', ''#000'')])] None)
             (Some (ValidDate ''2024-01-01T00:00:00.000Z'')) ''2024-01-01T00:00:00.000Z'' =
     Some (Modes [(''dark'', [(''--bg'', ''#000'')])]) \<and>
   extractWebflowVariableModes januaryPage
       (cacheStore (Some (ValidDate ''2024-01-01T00:00:00.000Z'')) ''2024-01-01T00:00:00.000Z''
          [(''dark'', [(''--bg'', ''#000'')])] None) =
     Inr (Modes [(''dark'', [(''--bg'', ''#000'')])],
          Some (CachedVariableModes ''2024-01-01T00:00:00.000Z''
                  (Modes [(''dark'', [(''--bg'', ''#000'')])]))) \<and>
   cacheLoad (cacheStore (Some (ValidDate ''2024-01-01T00:00:00.000Z'')) ''2024-01-01T00:00:00.000Z''
                [(''dark'', [(''--bg'', ''#000'')])] None)
             (Some (ValidDate ''2024-02-01T00:00:00.000Z'')) ''2024-02-01T00:00:00.000Z'' = None"
proof -
  have d: "publishDateStringOf (Some (ValidDate ''2024-01-01T00:00:00.000Z'')) =
             Inr ''2024-01-01T00:00:00.000Z''"
    by (simp add: publishDateStringOf_def toISOString_def)
  have p: "wfPublishDate januaryPage = Some (ValidDate ''2024-01-01T00:00:00.000Z'')"
    by (simp add: januaryPage_def)
  have n: "''2024-02-01T00:00:00.000Z'' \<noteq> ''2024-01-01T00:00:00.000Z''" by simp
  from cache_round_trip [OF d, of "[(''dark'', [(''--bg'', ''#000'')])]" None] p n
  show ?thesis by (simp add: cacheStore_def)
qed

text \<open>
  C8: when the page has no publish date, so that the version is the empty
  string, the pipeline adopts no cache entry, whatever the storage holds, also
  an entry whose version is the empty string: it returns the freshly computed
  data, and it stores nothing under the empty version.
\<close>

theorem unavailable_version_never_hits:
  assumes "wfPublishDate doc = None"
  shows "cacheLoad storage (wfPublishDate doc) [] = None \<and>
         extractWebflowVariableModes doc storage = Inr (Modes (freshVariableModes doc), storage)"
  using assms
  by (simp add: extractWebflowVariableModes_def publishDateStringOf_def cacheLoad_def
                cacheStore_def Let_def split: option.splits)

theorem unavailable_version_never_hits_witness:
  "extractWebflowVariableModes darkPage (Some (CachedVariableModes [] (Modes [(''light'', [])]))) =
     Inr (Modes [(''dark'', [(''--bg'', ''#000'')])],
          Some (CachedVariableModes [] (Modes [(''light'', [])])))"
proof -
  have "wfPublishDate darkPage = None" by (simp add: darkPage_def)
  from unavailable_version_never_hits
         [OF this, of "Some (CachedVariableModes [] (Modes [(''light'', [])]))"]
  show ?thesis by (simp add: darkPage_fresh)
qed

section \<open>Scenarios\<close>

text \<open>
  C9: on a page whose only element with the mode attribute has the mode
  \<open>dark\<close> and the first class \<open>c1\<close>, with a first style sheet in which the
  first rule for \<open>.c1\<close> declares \<open>--bg\<close>, with the value \<open>#000\<close> inside any
  white space, and \<open>color: red\<close>, the data published on a cache miss is
  \<open>{ dark: { "--bg": "#000" } }\<close>.
\<close>

theorem dark_scenario:
  assumes page: "querySelectorAll doc = [el]"
    and mode: "variableMode el = Some ''dark''"
    and cls: "classList el = ''c1'' # cs"
    and sheets: "styleSheets doc = sheet # others"
    and rules: "cssRules sheet = Some (pre @ CSSStyleRule ''.c1'' [(''--bg'', v), (''color'', ''red'')] # post)"
    and pre: "\<forall>st. CSSStyleRule ''.c1'' st \<notin> set pre"
    and v: "trim v = ''#000''"
    and date: "publishDateStringOf (wfPublishDate doc) = Inr s"
    and miss: "cacheLoad (localStorage w) (wfPublishDate doc) s = None"
  shows "\<exists>w'. initWfVarModes doc w = Inr w' \<and> isReady w' \<and>
              data w' = Modes [(''dark'', [(''--bg'', ''#000'')])]"
proof -
  let ?rules = "pre @ CSSStyleRule ''.c1'' [(''--bg'', v), (''color'', ''red'')] # post"
  have props: "customProperties [(''--bg'', v), (''color'', ''red'')] = [(''--bg'', ''#000'')]"
    using v by (simp add: customProperties_def customPropertiesStep_def startsWith_def
                          getPropertyValue_def)
  have "findClassRule ?rules ''c1'' = Some [(''--bg'', ''#000'')]"
    using findClassRule_append [of "''c1''" pre] pre props by simp
  then have el: "firstClassProps (findClassRule ?rules) el = [(''--bg'', ''#000'')]"
    using cls by (simp add: firstClassProps_def)
  have "extractCssCustomProperties (styleSheets doc) [el] el = Some [(''--bg'', ''#000'')]"
    using sheets rules el by (simp add: extractCssCustomProperties_def processElements_fst)
  then have "freshVariableModes doc = [(''dark'', [(''--bg'', ''#000'')])]"
    using page mode by (simp add: freshVariableModes_def collectModes_def collectStep_def)
  then show ?thesis
    using initWfVarModes_miss [OF date miss] by (simp add: publish_fields)
qed

theorem dark_scenario_witness:
  "\<exists>w'. initWfVarModes darkPage (initialWorld None) = Inr w' \<and> isReady w' \<and>
         data w' = Modes [(''dark'', [(''--bg'', ''#000'')])]"
proof -
  have "querySelectorAll darkPage = [darkElement]"
    by (simp add: querySelectorAll_def darkPage_def darkElement_def)
  moreover have "variableMode darkElement = Some ''dark''" by (simp add: darkElement_def)
  moreover have "classList darkElement = ''c1'' # []" by (simp add: darkElement_def)
  moreover have "styleSheets darkPage = darkSheet # []" by (simp add: darkPage_def)
  moreover have "cssRules darkSheet =
      Some ([] @ CSSStyleRule ''.c1'' [(''--bg'', '' #000 ''), (''color'', ''red'')] # [])"
    by (simp add: darkSheet_def)
  moreover have "\<forall>st. CSSStyleRule ''.c1'' st \<notin> set []" by simp
  moreover have "trim '' #000 '' = ''#000''" by (simp add: trim_def isSpace_def)
  moreover have "publishDateStringOf (wfPublishDate darkPage) = Inr []"
    by (simp add: publishDateStringOf_def darkPage_def)
  moreover have "cacheLoad (localStorage (initialWorld None)) (wfPublishDate darkPage) [] = None"
    by (simp add: cacheLoad_def initialWorld_def)
  ultimately show ?thesis by (rule dark_scenario)
qed

text \<open>
  C10: without a style sheet (for the collector that fetches: when the first
  style sheet has no href) the extraction gives the empty map, and the data
  published on a cache miss has no key at all: every element with the mode
  attribute is left out, none is mapped to an empty PropertyMap.
\<close>

theorem no_stylesheet_omits_every_mode:
  assumes date: "publishDateStringOf (wfPublishDate doc) = Inr s"
    and miss: "cacheLoad (localStorage w) (wfPublishDate doc) s = None"
  shows "(styleSheets doc = [] \<longrightarrow>
            extractCssCustomProperties (styleSheets doc) els = Map.empty \<and>
            (\<exists>w'. initWfVarModes doc w = Inr w' \<and> data w' = Modes [])) \<and>
         (noHref (styleSheets doc) \<longrightarrow>
            extractCssCustomProperties_fetch fetch (styleSheets doc) els = Map.empty \<and>
            (\<exists>w'. initWfVarModes_fetch fetch doc w = Inr w' \<and> data w' = Modes []))"
proof (intro conjI impI)
  assume none: "styleSheets doc = []"
  then show "extractCssCustomProperties (styleSheets doc) els = Map.empty"
    by (simp add: extractCssCustomProperties_def)
  from none have "freshVariableModes doc = []"
    by (simp add: freshVariableModes_def extractCssCustomProperties_def collectModes_empty)
  then show "\<exists>w'. initWfVarModes doc w = Inr w' \<and> data w' = Modes []"
    using initWfVarModes_miss [OF date miss] by (simp add: publish_fields)
next
  assume nohref: "noHref (styleSheets doc)"
  then show "extractCssCustomProperties_fetch fetch (styleSheets doc) els = Map.empty"
    by (rule extract_fetch_noHref)
  from nohref have "freshVariableModes_fetch fetch doc = []"
    by (simp add: freshVariableModes_fetch_def extract_fetch_noHref collectModes_empty)
  then show "\<exists>w'. initWfVarModes_fetch fetch doc w = Inr w' \<and> data w' = Modes []"
    using extractWebflowVariableModes_fetch_miss [OF date, of "localStorage w" fetch] miss
    by (simp add: initWfVarModes_fetch_def publish_fields)
qed

theorem no_stylesheet_omits_every_mode_witness:
  "querySelectorAll barePage = [darkElement] \<and>
   (\<exists>w'. initWfVarModes barePage (initialWorld None) = Inr w' \<and> data w' = Modes []) \<and>
   (\<exists>w'. initWfVarModes_fetch noFetch barePage (initialWorld None) = Inr w' \<and> data w' = Modes [])"
proof -
  have date: "publishDateStringOf (wfPublishDate barePage) = Inr []"
    by (simp add: publishDateStringOf_def barePage_def)
  have miss: "cacheLoad (localStorage (initialWorld None)) (wfPublishDate barePage) [] = None"
    by (simp add: cacheLoad_def initialWorld_def)
  have sheets: "styleSheets barePage = []" "noHref (styleSheets barePage)"
    by (simp_all add: barePage_def noHref_def)
  have "querySelectorAll barePage = [darkElement]"
    by (simp add: querySelectorAll_def barePage_def darkElement_def)
  then show ?thesis
    using no_stylesheet_omits_every_mode [OF date miss, of "[]" noFetch] sheets by simp
qed

section \<open>The readiness object\<close>

lemma run_before_ready_fields:
  "noInit evs \<Longrightarrow> \<not> isReady w \<Longrightarrow> timers w = [] \<Longrightarrow>
   isReady (run evs w) = isReady w \<and> data (run evs w) = data w \<and>
   calls (run evs w) = calls w \<and> dispatched (run evs w) = dispatched w"
  by (simp add: run_before_ready)

text \<open>
  C1, as stated: without an element that has the mode attribute nothing is
  published. The synchronous collector publishes there: \<open>data\<close> is the empty
  VariableModes and \<open>isReady\<close> is true.
\<close>

theorem no_mode_elements_sync_publishes_counterexample:
  "querySelectorAll emptyPage = [] \<and>
   initWfVarModes emptyPage (initialWorld None) =
     Inr \<lparr>localStorage = None, data = Modes [], isReady = True, listeners = [], timers = [],
          calls = [], dispatched = [(Modes [], True)]\<rparr>"
  by (simp add: emptyPage_def querySelectorAll_def initWfVarModes_def
      extractWebflowVariableModes_def publishDateStringOf_def cacheLoad_def cacheStore_def
      freshVariableModes_def extractCssCustomProperties_def collectModes_def publish_def
      dispatchEvent_def initialWorld_def)

text \<open>
  C1, amended: with the collector that parses in a worker, when no element has
  the mode attribute, the publish date is absent or valid and no cache entry is
  adopted, the initialization returns without publishing and without an
  exception; the state is left as it was, so that through any later calls of
  \<open>onReady\<close> and timers \<open>isReady\<close> stays false, \<open>data\<close> stays null and no
  callback is called. The synchronous collector publishes the empty
  VariableModes there.
\<close>

theorem no_mode_elements:
  assumes none: "querySelectorAll doc = []"
    and date: "publishDateStringOf (wfPublishDate doc) = Inr s"
    and miss: "cacheLoad storage (wfPublishDate doc) s = None"
  shows "initWfVarModes_worker fetch doc (initialWorld storage) = Inr (initialWorld storage) \<and>
         (\<forall>evs. noInit evs \<longrightarrow>
            \<not> isReady (run evs (initialWorld storage)) \<and>
            data (run evs (initialWorld storage)) = Null \<and>
            calls (run evs (initialWorld storage)) = []) \<and>
         initWfVarModes doc (initialWorld storage) =
           Inr (publish (Modes []) ((initialWorld storage)
                  \<lparr>localStorage := cacheStore (wfPublishDate doc) s [] storage\<rparr>))"
proof (intro conjI allI impI)
  have "extractWebflowVariableModes_worker fetch doc storage = Inr (Null, storage)"
    using none date miss
    by (simp add: extractWebflowVariableModes_worker_def getMultipleHtmlElements_def Let_def)
  then show "initWfVarModes_worker fetch doc (initialWorld storage) = Inr (initialWorld storage)"
    by (simp add: initWfVarModes_worker_def initialWorld_def truthy_def)
next
  fix evs
  assume "noInit evs"
  then have "isReady (run evs (initialWorld storage)) = isReady (initialWorld storage) \<and>
             data (run evs (initialWorld storage)) = data (initialWorld storage) \<and>
             calls (run evs (initialWorld storage)) = calls (initialWorld storage) \<and>
             dispatched (run evs (initialWorld storage)) = dispatched (initialWorld storage)"
    by (rule run_before_ready_fields) (simp_all add: initialWorld_def)
  then show "\<not> isReady (run evs (initialWorld storage))"
    and "data (run evs (initialWorld storage)) = Null"
    and "calls (run evs (initialWorld storage)) = []"
    by (simp_all add: initialWorld_def)
next
  have "freshVariableModes doc = []"
    using none by (simp add: freshVariableModes_def collectModes_def)
  then show "initWfVarModes doc (initialWorld storage) =
           Inr (publish (Modes []) ((initialWorld storage)
                  \<lparr>localStorage := cacheStore (wfPublishDate doc) s [] storage\<rparr>))"
    using initWfVarModes_miss [of doc s "initialWorld storage"] date miss
    by (simp add: initialWorld_def)
qed

theorem no_mode_elements_witness:
  "initWfVarModes_worker noFetch emptyPage (initialWorld None) = Inr (initialWorld None) \<and>
   \<not> isReady (run [OnReady 7, Tick] (initialWorld None)) \<and>
   data (run [OnReady 7, Tick] (initialWorld None)) = Null \<and>
   calls (run [OnReady 7, Tick] (initialWorld None)) = []"
proof -
  have none: "querySelectorAll emptyPage = []"
    by (simp add: querySelectorAll_def emptyPage_def)
  have date: "publishDateStringOf (wfPublishDate emptyPage) = Inr []"
    by (simp add: publishDateStringOf_def emptyPage_def)
  have miss: "cacheLoad None (wfPublishDate emptyPage) [] = None"
    by (simp add: cacheLoad_def)
  have "noInit [OnReady 7, Tick]" by (simp add: noInit_def)
  with no_mode_elements [OF none date miss, of noFetch] show ?thesis by blast
qed



text \<open>
  C4: \<open>isReady\<close> is true exactly when \<open>data\<close> is not null, and the event is
  dispatched only once both are set. The initialization of the synchronous
  collector breaks this on a cache entry that has the publish date of the page
  and \<^verbatim>\<open>data\<close> null: it adopts the entry, sets \<open>data\<close> to null and
  \<open>isReady\<close> to true, and dispatches the event in that state.
\<close>

theorem null_cache_entry_published:
  "initWfVarModes januaryPage
     (initialWorld (Some (CachedVariableModes ''2024-01-01T00:00:00.000Z'' Null))) =
   Inr \<lparr>localStorage = Some (CachedVariableModes ''2024-01-01T00:00:00.000Z'' Null),
        data = Null, isReady = True, listeners = [], timers = [], calls = [],
        dispatched = [(Null, True)]\<rparr>"
  by (simp add: initWfVarModes_def extractWebflowVariableModes_def publishDateStringOf_def
      toISOString_def cacheLoad_def januaryPage_def publish_def dispatchEvent_def
      initialWorld_def)

text \<open>
  The collector that parses in a worker tests the result before it publishes,
  and leaves the state as it was on that entry.
\<close>

lemma null_cache_entry_worker:
  "initWfVarModes_worker fetch januaryPage
     (initialWorld (Some (CachedVariableModes ''2024-01-01T00:00:00.000Z'' Null))) =
   Inr (initialWorld (Some (CachedVariableModes ''2024-01-01T00:00:00.000Z'' Null)))"
  by (simp add: initWfVarModes_worker_def extractWebflowVariableModes_worker_def
      publishDateStringOf_def toISOString_def cacheLoad_def januaryPage_def truthy_def
      initialWorld_def)

text \<open>
  As long as the cache entry has data that is not null, every state that a run
  of events reaches is consistent.
\<close>

lemma cacheLoad_hasData:
  "cacheHasData storage \<Longrightarrow> cacheLoad storage date s = Some v \<Longrightarrow> v \<noteq> Null"
  by (auto simp: cacheHasData_def cacheLoad_def split: option.splits CacheBlob.splits if_splits)

lemma cacheStore_hasData:
  "cacheHasData storage \<Longrightarrow> cacheHasData (cacheStore date s variableModes storage)"
  by (simp add: cacheHasData_def cacheStore_def)

lemma onReady_consistent: "consistent w \<Longrightarrow> consistent (onReady c w)"
  by (auto simp: consistent_def onReady_def)

lemma runTimer_consistent: "consistent w \<Longrightarrow> consistent (runTimer w)"
  by (auto simp: consistent_def runTimer_def split: list.splits)

lemma publish_consistent:
  "consistent w \<Longrightarrow> d \<noteq> Null \<Longrightarrow> consistent (publish d (w\<lparr>localStorage := st\<rparr>))"
  by (auto simp: consistent_def publish_def dispatchEvent_def)

lemma storage_consistent: "consistent w \<Longrightarrow> consistent (w\<lparr>localStorage := st\<rparr>)"
  by (auto simp: consistent_def)

lemma extract_hasData:
  assumes "cacheHasData storage"
  shows "extractWebflowVariableModes doc storage = Inr (v, st) \<Longrightarrow> v \<noteq> Null \<and> cacheHasData st"
    and "extractWebflowVariableModes_fetch fetch doc storage = Inr (v, st) \<Longrightarrow>
         v \<noteq> Null \<and> cacheHasData st"
    and "extractWebflowVariableModes_worker fetch doc storage = Inr (v, st) \<Longrightarrow> cacheHasData st"
  using assms cacheLoad_hasData [OF assms] cacheStore_hasData [OF assms]
  by (auto simp: extractWebflowVariableModes_def extractWebflowVariableModes_fetch_def
        extractWebflowVariableModes_worker_def Let_def
      split: sum.splits option.splits)

lemma step_consistent:
  assumes "consistent w" and "cacheHasData (localStorage w)"
  shows "consistent (step e w) \<and> cacheHasData (localStorage (step e w))"
proof (cases e)
  case (OnReady c)
  then show ?thesis using assms by (simp add: onReady_consistent) (simp add: onReady_def)
next
  case Tick
  then show ?thesis using assms
    by (simp add: runTimer_consistent) (simp add: runTimer_def split: list.splits)
next
  case (Init doc)
  show ?thesis
  proof (cases "extractWebflowVariableModes doc (localStorage w)")
    case (Inl err)
    then show ?thesis using Init assms by (simp add: orUnchanged_def initWfVarModes_def)
  next
    case (Inr r)
    obtain v st where r: "r = (v, st)" by (cases r)
    from extract_hasData(1) [OF assms(2)] Inr r have "v \<noteq> Null" "cacheHasData st" by auto
    then show ?thesis using Init Inr r assms(1)
      by (simp add: orUnchanged_def initWfVarModes_def publish_consistent publish_fields)
  qed
next
  case (InitFetch fetch doc)
  show ?thesis
  proof (cases "extractWebflowVariableModes_fetch fetch doc (localStorage w)")
    case (Inl err)
    then show ?thesis using InitFetch assms by (simp add: orUnchanged_def initWfVarModes_fetch_def)
  next
    case (Inr r)
    obtain v st where r: "r = (v, st)" by (cases r)
    from extract_hasData(2) [OF assms(2)] Inr r have "v \<noteq> Null" "cacheHasData st" by auto
    then show ?thesis using InitFetch Inr r assms(1)
      by (simp add: orUnchanged_def initWfVarModes_fetch_def publish_consistent publish_fields)
  qed
next
  case (InitWorker fetch doc)
  show ?thesis
  proof (cases "extractWebflowVariableModes_worker fetch doc (localStorage w)")
    case (Inl err)
    then show ?thesis using InitWorker assms
      by (simp add: orUnchanged_def initWfVarModes_worker_def)
  next
    case (Inr r)
    obtain v st where r: "r = (v, st)" by (cases r)
    from extract_hasData(3) [OF assms(2)] Inr r have st: "cacheHasData st" by auto
    have "truthy v \<Longrightarrow> v \<noteq> Null" by (auto simp: truthy_def)
    then show ?thesis using InitWorker Inr r assms(1) st
      by (simp add: orUnchanged_def initWfVarModes_worker_def publish_consistent publish_fields
          storage_consistent)
  qed
qed

lemma run_consistent:
  "consistent w \<Longrightarrow> cacheHasData (localStorage w) \<Longrightarrow>
   consistent (run evs w) \<and> cacheHasData (localStorage (run evs w))"
proof (induction evs arbitrary: w)
  case Nil
  then show ?case by (simp add: run_def)
next
  case (Cons e evs)
  from step_consistent [OF Cons.prems, of e] Cons.IH [of "step e w"]
  show ?case by (simp add: run_Cons)
qed

lemma readiness_consistent_with_data:
  assumes "cacheHasData storage"
  shows "consistent (run evs (initialWorld storage))"
proof -
  have "consistent (initialWorld storage)" by (simp add: consistent_def initialWorld_def)
  moreover have "cacheHasData (localStorage (initialWorld storage))"
    using assms by (simp add: initialWorld_def)
  ultimately show ?thesis using run_consistent by blast
qed

section \<open>The index from classes to properties\<close>

lemma storeClass_nonempty:
  "\<forall>c p. m c = Some p \<longrightarrow> p \<noteq> [] \<Longrightarrow> storeClass cn styleBlock m c = Some p \<Longrightarrow> p \<noteq> []"
  by (auto simp: storeClass_def Let_def split: if_splits)

lemma scanClassRules_nonempty:
  "(\<forall>c p. m c = Some p \<longrightarrow> p \<noteq> []) \<Longrightarrow> scanClassRules s m className = Some props \<Longrightarrow>
   props \<noteq> []"
proof (induction s arbitrary: m rule: length_induct)
  case (1 s)
  show ?case
  proof (cases s)
    case Nil
    with 1 show ?thesis by simp
  next
    case (Cons c cs)
    show ?thesis
    proof (cases "matchClassRule (c # cs)")
      case None
      then have "scanClassRules cs m className = Some props"
        using "1.prems"(2) Cons by (simp only: scanClassRules.simps option.case)
      moreover have "length cs < length s" using Cons by simp
      ultimately show ?thesis using "1.IH" "1.prems"(1) by blast
    next
      case (Some r)
      obtain cn styleBlock rest where r: "r = (cn, styleBlock, rest)" by (cases r) auto
      have "scanClassRules rest (storeClass cn styleBlock m) className = Some props"
        using "1.prems"(2) Cons Some r by (simp only: scanClassRules.simps option.case prod.case)
      moreover have "length rest < length s"
        using matchClassRule_shorter [of s cn styleBlock rest] Some r Cons by simp
      moreover have "\<forall>c p. storeClass cn styleBlock m c = Some p \<longrightarrow> p \<noteq> []"
        using storeClass_nonempty [OF "1.prems"(1)] by blast
      ultimately show ?thesis using "1.IH" by blast
    qed
  qed
qed

lemma customProperties_none:
  assumes "\<forall>name \<in> set (map fst st). \<not> startsWith name ''--''"
  shows "customProperties st = []"
proof -
  have "\<forall>name \<in> set names. \<not> startsWith name ''--'' \<Longrightarrow>
        fold (customPropertiesStep st) names acc = acc" for names acc
    by (induction names arbitrary: acc) (simp_all add: customPropertiesStep_def)
  with assms show ?thesis by (simp add: customProperties_def)
qed

lemma findClassRule_first:
  "\<forall>st'. CSSStyleRule (CHR ''.'' # c) st' \<notin> set pre \<Longrightarrow>
   findClassRule (pre @ CSSStyleRule (CHR ''.'' # c) st # post) c = Some (customProperties st)"
  by (simp add: findClassRule_append)

lemma processElements_snd:
  "el \<in> set els \<Longrightarrow> classList el = c # cs \<Longrightarrow> findClassRule rules c = Some p \<Longrightarrow>
   snd (processElements rules els) c = Some p"
  unfolding processElements_def
  by (rule fold_processElement_stores [OF cachedFrom_empty])

text \<open>
  C5, as stated: a class whose rule declares no custom property is not a key
  of the index. The synchronous collector stores the class of a rule it found
  in \<open>classRulesMap\<close> whatever the rule declares: for \<open>.c1 { color: red }\<close>
  the class \<open>c1\<close> is a key, with an empty PropertyMap.
\<close>

theorem index_keeps_empty_rule_counterexample:
  "\<not> startsWith ''color'' ''--'' \<and>
   snd (processElements [CSSStyleRule ''.c1'' [(''color'', ''red'')]] [darkElement]) ''c1'' = Some []"
  by code_simp

text \<open>
  C5, amended: in the index that the collectors build from the text of the
  style sheet, every key has at least one property. In the synchronous
  collector, the first class of an element whose first matching rule has no
  declaration with a name that starts with \<open>--\<close> is a key of
  \<open>classRulesMap\<close> with an empty PropertyMap, and the element gets the empty
  PropertyMap.
\<close>

theorem index_keys:
  assumes pre: "\<forall>st'. CSSStyleRule (CHR ''.'' # className) st' \<notin> set pre"
    and st: "\<forall>name \<in> set (map fst st). \<not> startsWith name ''--''"
    and el: "element \<in> set els" "classList element = className # others"
  shows "(\<forall>c props. scanClassRules cssText Map.empty c = Some props \<longrightarrow> props \<noteq> []) \<and>
         snd (processElements (pre @ CSSStyleRule (CHR ''.'' # className) st # post) els) className
           = Some [] \<and>
         fst (processElements (pre @ CSSStyleRule (CHR ''.'' # className) st # post) els) element
           = Some []"
proof -
  let ?rules = "pre @ CSSStyleRule (CHR ''.'' # className) st # post"
  have found: "findClassRule ?rules className = Some []"
    using findClassRule_first [OF pre, of st post] customProperties_none [OF st] by simp
  have a: "\<forall>c props. scanClassRules cssText Map.empty c = Some props \<longrightarrow> props \<noteq> []"
    using scanClassRules_nonempty [of Map.empty cssText] by simp
  have b: "snd (processElements ?rules els) className = Some []"
    using processElements_snd [OF el found] .
  have c: "fst (processElements ?rules els) element = Some []"
    using el found by (simp add: processElements_fst firstClassProps_def)
  from a b c show ?thesis by (intro conjI)
qed

theorem index_keys_witness:
  "scanClassRules ''.c1 { color: red; } .c2 { --x: 1px; }'' Map.empty ''c1'' = None \<and>
   scanClassRules ''.c1 { color: red; } .c2 { --x: 1px; }'' Map.empty ''c2'' = Some [(''--x'', ''1px'')] \<and>
   snd (processElements ([] @ CSSStyleRule ''.c1'' [(''color'', ''red'')] # []) [darkElement]) ''c1''
     = Some []"
proof -
  have pre: "\<forall>st'. CSSStyleRule (CHR ''.'' # ''c1'') st' \<notin> set []" by simp
  have st: "\<forall>name \<in> set (map fst [(''color'', ''red'')]). \<not> startsWith name ''--''"
    by (simp add: startsWith_def)
  have el: "darkElement \<in> set [darkElement]" "classList darkElement = ''c1'' # []"
    by (simp_all add: darkElement_def)
  have a: "scanClassRules ''.c1 { color: red; } .c2 { --x: 1px; }'' Map.empty ''c1'' = None"
    by code_simp
  have b: "scanClassRules ''.c1 { color: red; } .c2 { --x: 1px; }'' Map.empty ''c2''
           = Some [(''--x'', ''1px'')]"
    by code_simp
  have c: "snd (processElements ([] @ CSSStyleRule ''.c1'' [(''color'', ''red'')] # []) [darkElement]) ''c1''
     = Some []"
    using index_keys [OF pre st el, of "[]" "[]"] by blast
  from a b c show ?thesis by (intro conjI)
qed

text \<open>
  C6, as stated: of several rules for one class the index keeps the
  properties of the first. The index built from the text of the style sheet
  stores each match over the one before: for \<open>.c1{--x:1;}.c1{--x:2;}\<close> it
  has the value of the last rule, where the search through the parsed rules
  gives that of the first.
\<close>

theorem text_index_last_rule_counterexample:
  "findClassRule [CSSStyleRule ''.c1'' [(''--x'', ''1'')], CSSStyleRule ''.c1'' [(''--x'', ''2'')]] ''c1''
     = Some [(''--x'', ''1'')] \<and>
   scanClassRules ''.c1{--x:1;}.c1{--x:2;}'' Map.empty ''c1'' = Some [(''--x'', ''2'')]"
  by code_simp

text \<open>
  C6, amended: in the synchronous collector, the search for a class, the
  entry of \<open>classRulesMap\<close> for the first class of an element and the
  properties of that element are the custom properties of the first style rule
  whose selector is the class, whatever rules follow it.
\<close>

theorem first_match_wins:
  assumes pre: "\<forall>st'. CSSStyleRule (CHR ''.'' # className) st' \<notin> set pre"
    and el: "element \<in> set els" "classList element = className # others"
  shows "findClassRule (pre @ CSSStyleRule (CHR ''.'' # className) st # post) className
           = Some (customProperties st) \<and>
         snd (processElements (pre @ CSSStyleRule (CHR ''.'' # className) st # post) els) className
           = Some (customProperties st) \<and>
         fst (processElements (pre @ CSSStyleRule (CHR ''.'' # className) st # post) els) element
           = Some (customProperties st)"
proof -
  let ?rules = "pre @ CSSStyleRule (CHR ''.'' # className) st # post"
  have found: "findClassRule ?rules className = Some (customProperties st)"
    using pre by (rule findClassRule_first)
  have b: "snd (processElements ?rules els) className = Some (customProperties st)"
    using processElements_snd [OF el found] .
  have c: "fst (processElements ?rules els) element = Some (customProperties st)"
    using el found by (simp add: processElements_fst firstClassProps_def)
  from found b c show ?thesis by (intro conjI)
qed

theorem first_match_wins_witness:
  "snd (processElements
         ([OtherRule] @ CSSStyleRule ''.c1'' [(''--x'', ''1'')] # [CSSStyleRule ''.c1'' [(''--x'', ''2'')]])
         [darkElement]) ''c1'' = Some [(''--x'', ''1'')]"
proof -
  have pre: "\<forall>st'. CSSStyleRule (CHR ''.'' # ''c1'') st' \<notin> set [OtherRule]" by simp
  have el: "darkElement \<in> set [darkElement]" "classList darkElement = ''c1'' # []"
    by (simp_all add: darkElement_def)
  have p: "customProperties [(''--x'', ''1'')] = [(''--x'', ''1'')]"
    by code_simp
  have "snd (processElements
         ([OtherRule] @ CSSStyleRule (CHR ''.'' # ''c1'') [(''--x'', ''1'')] #
            [CSSStyleRule ''.c1'' [(''--x'', ''2'')]])
         [darkElement]) ''c1'' = Some (customProperties [(''--x'', ''1'')])"
    using first_match_wins [OF pre el, of "[(''--x'', ''1'')]" "[CSSStyleRule ''.c1'' [(''--x'', ''2'')]]"]
    by blast
  then show ?thesis by (simp only: p)
qed

section \<open>The two ways to read the style sheet\<close>



subsection \<open>The text of a plain style sheet, read by the two expressions\<close>
























text \<open>
  Outside the plain style sheets the two differ in more ways than by the last
  semicolon: a selector that is more than a class, two dashes inside another
  declaration, a custom property with a blank value.
\<close>

lemma divergences_outside_plain_sheets:
  "findClassRule [CSSStyleRule ''div.c1'' [(''--x'', ''1'')]] ''c1'' = None \<and>
   scanClassRules ''div.c1 { --x: 1; }'' Map.empty ''c1'' = Some [(''--x'', ''1'')] \<and>
   findClassRule [CSSStyleRule ''.c1'' [(''background'', ''var(--x)''), (''color'', ''red'')]] ''c1''
     = Some [] \<and>
   scanClassRules ''.c1 { background: var(--x); color: red; }'' Map.empty ''c1'' =
     Some [(''--x); color'', ''red'')] \<and>
   findClassRule [CSSStyleRule ''.c1'' [(''--x'', [])]] ''c1'' = Some [] \<and>
   scanClassRules ''.c1 { --x: ; }'' Map.empty ''c1'' = Some [(''--x'', [])]"
  by code_simp

end
